theory Spec2Isabelle
  imports Complex_Main "HOL-Library.AList"
begin

section \<open>Errors (types.ts)\<close>

text \<open>
  A thrown error object of the library: the \<^verbatim>\<open>name\<close> each constructor sets, the message,
  and the two optional fields of \<^verbatim>\<open>TacomailError\<close>. The class of an error is read off
  its \<^verbatim>\<open>name\<close>, which every subclass constructor overwrites.
\<close>

record error =
  err_name :: string
  err_message :: string
  err_statusCode :: "int option"
  err_endpoint :: "string option"

definition TacomailError :: "string \<Rightarrow> int option \<Rightarrow> string option \<Rightarrow> error" where
  "TacomailError msg status ep =
     \<lparr>err_name = ''TacomailError'', err_message = msg, err_statusCode = status, err_endpoint = ep\<rparr>"

definition SessionExpiredError :: "string \<Rightarrow> error" where
  "SessionExpiredError address =
     (TacomailError (''Session for '' @ address @ '' has expired'') (Some 401) (Some ''session''))
       \<lparr>err_name := ''SessionExpiredError''\<rparr>"

definition InboxNotFoundError :: "string \<Rightarrow> error" where
  "InboxNotFoundError address =
     (TacomailError (''Inbox '' @ address @ '' not found or no active session'') (Some 404) (Some ''inbox''))
       \<lparr>err_name := ''InboxNotFoundError''\<rparr>"

section \<open>Data (types.ts)\<close>

record AttachmentType =
  att_id :: string
  att_filename :: string

record EmailAddress =
  ea_address :: string
  ea_name :: string

record MailType =
  mt_id :: string
  mt_from :: EmailAddress
  mt_to :: EmailAddress
  mt_subject :: string
  mt_date :: string
  mt_body_text :: string
  mt_body_html :: string
  mt_headers :: "(string \<times> string) list"
  mt_attachments :: "AttachmentType list"

text \<open>A \<^verbatim>\<open>Session\<close> object; its \<^verbatim>\<open>isValid\<close> method is \<open>isValid\<close> below.\<close>

record Session =
  sess_address :: string
  sess_expires :: int
  sess_server :: string

section \<open>Numbers\<close>

text \<open>
  The \<^verbatim>\<open>timeout\<close> and \<^verbatim>\<open>interval\<close> of \<^verbatim>\<open>waitForMail\<close> are JavaScript numbers: finite ones
  (every finite double is a rational), the two infinities and \<^verbatim>\<open>NaN\<close>. \<open>js_less d n\<close> is
  \<^verbatim>\<open>d < n\<close> for a whole number \<open>d\<close> of milliseconds, and \<open>js_le_zero n\<close> is \<^verbatim>\<open>n <= 0\<close>; a
  comparison with \<^verbatim>\<open>NaN\<close> is false.
\<close>

datatype number = Finite rat | PosInfinity | NegInfinity | NaN

definition js_less :: "int \<Rightarrow> number \<Rightarrow> bool" where
  "js_less d n =
     (case n of Finite q \<Rightarrow> of_int d < q | PosInfinity \<Rightarrow> True | NegInfinity \<Rightarrow> False
      | NaN \<Rightarrow> False)"

definition js_le_zero :: "number \<Rightarrow> bool" where
  "js_le_zero n =
     (case n of Finite q \<Rightarrow> q \<le> 0 | PosInfinity \<Rightarrow> False | NegInfinity \<Rightarrow> True
      | NaN \<Rightarrow> False)"

section \<open>The world: clock, observable trace, and the heap of shared objects\<close>

text \<open>
  What the library does to its environment is recorded in a trace: every request a route
  function sends and every \<^verbatim>\<open>setTimeout\<close> sleep, each stamped with \<^verbatim>\<open>Date.now()\<close> at
  the moment it starts. The username and domain of a session request are optional because the callers pass
  the first two elements of \<^verbatim>\<open>address.split('@')\<close>, and a missing element is \<^verbatim>\<open>undefined\<close>.
\<close>

datatype event =
    GetDomains string
  | GetMail string string
  | PostSession "string option" "string option" string
  | DeleteSession "string option" "string option" string
  | GetSingleMail string string string
  | DeleteMail string string string
  | DeleteAllMail string string
  | DownloadAttachment string string string string
  | GetAttachments string string string
  | GetContactEmail string
  | GetRandomUsername string
  | Sleep number

text \<open>
  \<^verbatim>\<open>Session\<close> objects and \<^verbatim>\<open>string[]\<close> arrays are shared by reference in the source, so they
  live in a heap; a reference is the index at which the object was allocated.
\<close>

record world =
  now :: int
  trace :: "(int \<times> event) list"
  session_heap :: "Session list"
  array_heap :: "string list list"

text \<open>What axios can throw, as far as \<^verbatim>\<open>handleApiError\<close> looks at it.\<close>

datatype thrown =
    AxiosError (response_status: "int option") (data_message: "string option")
      (data_error: "string option") (axios_message: string)
  | JsError string
  | NonError

text \<open>
  The body of a \<^verbatim>\<open>/randomUsername\<close> or \<^verbatim>\<open>/contactEmail\<close> response: an object whose field
  (\<^verbatim>\<open>username\<close>, \<^verbatim>\<open>email\<close>) may be missing, or a bare string.
\<close>

datatype v2_data = Field "string option" | Bare string

text \<open>
  The remote service and the runtime, as seen from the library: the outcome of each request
  together with the milliseconds it takes, and the milliseconds a \<^verbatim>\<open>setTimeout\<close> of a given
  delay really waits; each may depend on everything that happened before. \<open>number_digits\<close> is
  what the runtime prints for a finite number that is not a whole number below \<open>2 ^ 53\<close>
  (a fraction, rounded digits or exponent form), and \<open>math_random w n\<close> is
  \<^verbatim>\<open>Math.floor(Math.random() * n)\<close>.
\<close>

record env =
  axios_get_domains :: "world \<Rightarrow> string \<Rightarrow> (thrown + string list) \<times> nat"
  axios_get_mail :: "world \<Rightarrow> string \<Rightarrow> string \<Rightarrow> (thrown + MailType list) \<times> nat"
  axios_post_session :: "world \<Rightarrow> string option \<Rightarrow> string option \<Rightarrow> string \<Rightarrow> (thrown + int) \<times> nat"
  axios_delete_session :: "world \<Rightarrow> string option \<Rightarrow> string option \<Rightarrow> string \<Rightarrow> (thrown + unit) \<times> nat"
  axios_get_single_mail :: "world \<Rightarrow> string \<Rightarrow> string \<Rightarrow> string \<Rightarrow> (thrown + MailType) \<times> nat"
  axios_delete_mail :: "world \<Rightarrow> string \<Rightarrow> string \<Rightarrow> string \<Rightarrow> (thrown + unit) \<times> nat"
  axios_delete_all_mail :: "world \<Rightarrow> string \<Rightarrow> string \<Rightarrow> (thrown + unit) \<times> nat"
  axios_download_attachment ::
    "world \<Rightarrow> string \<Rightarrow> string \<Rightarrow> string \<Rightarrow> string \<Rightarrow> (thrown + nat list) \<times> nat"
  axios_get_attachments ::
    "world \<Rightarrow> string \<Rightarrow> string \<Rightarrow> string \<Rightarrow> (thrown + AttachmentType list) \<times> nat"
  axios_get_contact_email :: "world \<Rightarrow> string \<Rightarrow> (thrown + v2_data) \<times> nat"
  axios_get_random_username :: "world \<Rightarrow> string \<Rightarrow> (thrown + v2_data) \<times> nat"
  math_random :: "world \<Rightarrow> nat \<Rightarrow> nat"
  timer_wait :: "world \<Rightarrow> number \<Rightarrow> nat"
  number_digits :: "rat \<Rightarrow> string"

definition emit :: "event \<Rightarrow> nat \<Rightarrow> world \<Rightarrow> world" where
  "emit ev ms w = w\<lparr>now := now w + int ms, trace := trace w @ [(now w, ev)]\<rparr>"

section \<open>Routes (routes.ts)\<close>

text \<open>
  A string that may be \<^verbatim>\<open>undefined\<close> is a \<open>string option\<close>; it is truthy when it is
  defined and not empty. \<open>js_or a b\<close> is \<^verbatim>\<open>a || b\<close>.
\<close>

definition truthy :: "string option \<Rightarrow> bool" where
  "truthy s = (case s of None \<Rightarrow> False | Some t \<Rightarrow> t \<noteq> [])"

definition js_or :: "string option \<Rightarrow> string \<Rightarrow> string" where
  "js_or a b = (case a of None \<Rightarrow> b | Some t \<Rightarrow> if t = [] then b else t)"

definition starts_with :: "string \<Rightarrow> string \<Rightarrow> bool" where
  "starts_with p s = (take (length p) s = p)"

text \<open>The regular expression \<^verbatim>\<open>/GET \/mail\/([^\/]+)/\<close>: leftmost match, greedy group.\<close>

fun match_mail_address :: "string \<Rightarrow> string option" where
  "match_mail_address [] = None"
| "match_mail_address (c # cs) =
     (let s = c # cs; rest = drop 10 s; grp = takeWhile (\<lambda>x. x \<noteq> CHR ''/'') rest
      in if starts_with ''GET /mail/'' s \<and> grp \<noteq> [] then Some grp else match_mail_address cs)"

definition handleApiError :: "thrown \<Rightarrow> string \<Rightarrow> error" where
  "handleApiError err endpoint =
     (case err of
        AxiosError status dmsg derr amsg \<Rightarrow>
          if starts_with ''GET /mail/'' endpoint \<and> status = Some 404 then
            InboxNotFoundError
              (case match_mail_address endpoint of Some a \<Rightarrow> a | None \<Rightarrow> ''unknown'')
          else
            TacomailError
              (js_or dmsg (js_or derr (js_or (Some amsg) ''Unknown API error'')))
              status (Some endpoint)
      | JsError msg \<Rightarrow> TacomailError msg None (Some endpoint)
      | NonError \<Rightarrow> TacomailError ''Unknown error'' None (Some endpoint))"

definition route :: "event \<Rightarrow> string \<Rightarrow> (thrown + 'a) \<times> nat \<Rightarrow> world \<Rightarrow> (error + 'a) \<times> world" where
  "route ev endpoint reply w =
     (case fst reply of
        Inl err \<Rightarrow> (Inl (handleApiError err endpoint), emit ev (snd reply) w)
      | Inr data \<Rightarrow> (Inr data, emit ev (snd reply) w))"

definition getAvailableDomains :: "env \<Rightarrow> string \<Rightarrow> world \<Rightarrow> (error + string list) \<times> world" where
  "getAvailableDomains e server w =
     route (GetDomains server) ''GET /domains'' (axios_get_domains e w server) w"

definition getMailForAddress :: "env \<Rightarrow> string \<Rightarrow> string \<Rightarrow> world \<Rightarrow> (error + MailType list) \<times> world" where
  "getMailForAddress e address server w =
     route (GetMail address server) (''GET /mail/'' @ address) (axios_get_mail e w address server) w"

definition createSession :: "env \<Rightarrow> string option \<Rightarrow> string option \<Rightarrow> string \<Rightarrow> world \<Rightarrow> (error + int) \<times> world" where
  "createSession e username domain server w =
     route (PostSession username domain server) ''POST /session''
       (axios_post_session e w username domain server) w"

definition deleteSession :: "env \<Rightarrow> string option \<Rightarrow> string option \<Rightarrow> string \<Rightarrow> world \<Rightarrow> (error + unit) \<times> world" where
  "deleteSession e username domain server w =
     route (DeleteSession username domain server) ''DELETE /session''
       (axios_delete_session e w username domain server) w"









section \<open>Classes (classes.ts)\<close>

record Attachment =
  attachment_id :: string
  attachment_filename :: string
  attachment_address :: string
  attachment_mailId :: string
  attachment_server :: string

record Mail =
  mail_id :: string
  mail_from :: EmailAddress
  mail_to :: EmailAddress
  mail_subject :: string
  mail_date :: string
  mail_body_text :: string
  mail_body_html :: string
  mail_headers :: "(string \<times> string) list"
  mail_attachments :: "Attachment list"
  mail_address :: string
  mail_server :: string

definition new_Attachment :: "AttachmentType \<Rightarrow> string \<Rightarrow> string \<Rightarrow> string \<Rightarrow> Attachment" where
  "new_Attachment a address mailId server =
     \<lparr>attachment_id = att_id a, attachment_filename = att_filename a,
      attachment_address = address, attachment_mailId = mailId, attachment_server = server\<rparr>"

definition new_Mail :: "MailType \<Rightarrow> string \<Rightarrow> string \<Rightarrow> Mail" where
  "new_Mail m address server =
     \<lparr>mail_id = mt_id m, mail_from = mt_from m, mail_to = mt_to m, mail_subject = mt_subject m,
      mail_date = mt_date m, mail_body_text = mt_body_text m, mail_body_html = mt_body_html m,
      mail_headers = mt_headers m,
      mail_attachments = map (\<lambda>a. new_Attachment a address (mt_id m) server) (mt_attachments m),
      mail_address = address, mail_server = server\<rparr>"

text \<open>
  An \<^verbatim>\<open>Inbox\<close> holds a reference to its \<^verbatim>\<open>Session\<close> object, if it has one, and the period
  of its refresh timer, if one is armed. A \<^verbatim>\<open>TacomailClient\<close> holds a reference to the cached
  domain array and its \<^verbatim>\<open>Map\<close> of sessions, kept in insertion order as a \<^verbatim>\<open>Map\<close> is.
\<close>

record Inbox =
  inbox_address :: string
  inbox_server :: string
  inbox_session :: "nat option"
  refreshTimer :: "int option"

record TacomailClient =
  client_server :: string
  domainsCache :: "nat option"
  sessions :: "(string \<times> nat) list"

definition new_Inbox :: "string \<Rightarrow> string \<Rightarrow> nat option \<Rightarrow> Inbox" where
  "new_Inbox address server session =
     \<lparr>inbox_address = address, inbox_server = server, inbox_session = session, refreshTimer = None\<rparr>"

definition new_TacomailClient :: "string \<Rightarrow> TacomailClient" where
  "new_TacomailClient server = \<lparr>client_server = server, domainsCache = None, sessions = []\<rparr>"

subsection \<open>Heap and string helpers\<close>

definition alloc_array :: "string list \<Rightarrow> world \<Rightarrow> nat \<times> world" where
  "alloc_array xs w = (length (array_heap w), w\<lparr>array_heap := array_heap w @ [xs]\<rparr>)"

definition alloc_session :: "Session \<Rightarrow> world \<Rightarrow> nat \<times> world" where
  "alloc_session s w = (length (session_heap w), w\<lparr>session_heap := session_heap w @ [s]\<rparr>)"

text \<open>\<^verbatim>\<open>Date.now() < this.expires\<close>\<close>

definition isValid :: "Session \<Rightarrow> world \<Rightarrow> bool" where
  "isValid s w = (now w < sess_expires s)"

text \<open>\<^verbatim>\<open>s.split(c)\<close> for a one-character separator: never empty, \<^verbatim>\<open>"".split(c)\<close> is \<^verbatim>\<open>[""]\<close>.\<close>

fun split_at :: "char \<Rightarrow> string \<Rightarrow> string list" where
  "split_at c [] = [[]]"
| "split_at c (x # xs) =
     (if x = c then [] # split_at c xs
      else (case split_at c xs of p # ps \<Rightarrow> (x # p) # ps | [] \<Rightarrow> [[x]]))"

text \<open>Array destructuring: element \<open>i\<close>, or \<^verbatim>\<open>undefined\<close> past the end.\<close>

definition element :: "'a list \<Rightarrow> nat \<Rightarrow> 'a option" where
  "element xs i = (if i < length xs then Some (xs ! i) else None)"

text \<open>Decimal rendering of an integer.\<close>

fun digits :: "nat \<Rightarrow> string" where
  "digits n =
     (if n < 10 then [''0123456789'' ! n] else digits (n div 10) @ [''0123456789'' ! (n mod 10)])"

declare digits.simps [simp del]

definition show_int :: "int \<Rightarrow> string" where
  "show_int i = (if i < 0 then CHR ''-'' # digits (nat (- i)) else digits (nat i))"

text \<open>
  A number inside a template literal. A whole number below \<open>2 ^ 53\<close> in absolute value is
  printed in full decimal; the other finite numbers are printed by the runtime's digit
  generation, which is left to \<open>number_digits\<close>.
\<close>

definition toString :: "env \<Rightarrow> number \<Rightarrow> string" where
  "toString e n =
     (case n of
        Finite q \<Rightarrow>
          if q = of_int \<lfloor>q\<rfloor> \<and> \<bar>q\<bar> < 2 ^ 53 then show_int \<lfloor>q\<rfloor> else number_digits e q
      | PosInfinity \<Rightarrow> ''Infinity''
      | NegInfinity \<Rightarrow> ''-Infinity''
      | NaN \<Rightarrow> ''NaN'')"

subsection \<open>Inbox\<close>

definition hasActiveSession :: "Inbox \<Rightarrow> world \<Rightarrow> bool" where
  "hasActiveSession inbox w =
     (case inbox_session inbox of None \<Rightarrow> False | Some r \<Rightarrow> isValid (session_heap w ! r) w)"

definition getAllMail :: "env \<Rightarrow> Inbox \<Rightarrow> world \<Rightarrow> (error + Mail list) \<times> world" where
  "getAllMail e inbox w =
     (case getMailForAddress e (inbox_address inbox) (inbox_server inbox) w of
        (Inl err, w1) \<Rightarrow> (Inl err, w1)
      | (Inr mailData, w1) \<Rightarrow>
          (Inr (map (\<lambda>mail. new_Mail mail (inbox_address inbox) (inbox_server inbox)) mailData), w1))"


text \<open>\<^verbatim>\<open>await new Promise((resolve) => setTimeout(resolve, interval))\<close>\<close>

definition sleep :: "env \<Rightarrow> number \<Rightarrow> world \<Rightarrow> world" where
  "sleep e interval w = emit (Sleep interval) (timer_wait e w interval) w"

definition timeout_error :: "env \<Rightarrow> number \<Rightarrow> error" where
  "timeout_error e timeout =
     TacomailError (''Timeout waiting for email after '' @ toString e timeout @ ''ms'') None None"

text \<open>
  The \<^verbatim>\<open>while\<close> loop of \<^verbatim>\<open>waitForMail\<close>. It need not end (a timer that never lets the clock
  advance, a service that answers in no time), so it is a partial function: \<open>None\<close> is the
  call that never returns. The \<^verbatim>\<open>filter\<close> parameter is called \<open>pred\<close> here.
\<close>

partial_function (option) poll ::
  "env \<Rightarrow> Inbox \<Rightarrow> (Mail \<Rightarrow> bool) \<Rightarrow> number \<Rightarrow> number \<Rightarrow> int \<Rightarrow> string list \<Rightarrow> world
     \<Rightarrow> ((error + Mail) \<times> world) option" where
  "poll e inbox pred timeout interval start existingIds w =
     (if js_less (now w - start) timeout then
        (case getAllMail e inbox w of
           (Inl err, w1) \<Rightarrow> Some (Inl err, w1)
         | (Inr mails, w1) \<Rightarrow>
             (case find (\<lambda>mail. mail_id mail \<notin> set existingIds \<and> pred mail) mails of
                Some mail \<Rightarrow> Some (Inr mail, w1)
              | None \<Rightarrow>
                  (case find (\<lambda>mail. mail_id mail \<in> set existingIds \<and> pred mail) mails of
                     Some mail \<Rightarrow> Some (Inr mail, w1)
                   | None \<Rightarrow>
                       poll e inbox pred timeout interval start existingIds
                         (sleep e interval w1))))
      else Some (Inl (timeout_error e timeout), w))"

declare poll.simps [code]

definition waitForMail ::
  "env \<Rightarrow> Inbox \<Rightarrow> (Mail \<Rightarrow> bool) \<Rightarrow> number \<Rightarrow> number \<Rightarrow> world
     \<Rightarrow> ((error + Mail) \<times> world) option" where
  "waitForMail e inbox pred timeout interval w =
     (let start = now w in
      case getAllMail e inbox w of
        (Inl err, w1) \<Rightarrow> Some (Inl err, w1)
      | (Inr existingMails, w1) \<Rightarrow>
          poll e inbox pred timeout interval start (map mail_id existingMails) w1)"

definition refreshSession :: "env \<Rightarrow> Inbox \<Rightarrow> world \<Rightarrow> (error + unit) \<times> world" where
  "refreshSession e inbox w =
     (case inbox_session inbox of
        None \<Rightarrow> (Inl (TacomailError ''No session to refresh'' None None), w)
      | Some r \<Rightarrow>
          if \<not> isValid (session_heap w ! r) w then
            (Inl (SessionExpiredError (inbox_address inbox)), w)
          else
            (let parts = split_at CHR ''@'' (inbox_address inbox);
                 username = element parts 0;
                 domain = element parts 1
             in case createSession e username domain (inbox_server inbox) w of
                  (Inl err, w1) \<Rightarrow> (Inl err, w1)
                | (Inr expires, w1) \<Rightarrow>
                    (Inr (),
                     w1\<lparr>session_heap :=
                          (session_heap w1)[r := (session_heap w1 ! r)\<lparr>sess_expires := expires\<rparr>]\<rparr>)))"

text \<open>Arming replaces whatever timer was armed; the ticks themselves run in the background.\<close>

definition enableAutoRefresh :: "Inbox \<Rightarrow> int \<Rightarrow> Inbox" where
  "enableAutoRefresh inbox interval = inbox\<lparr>refreshTimer := Some interval\<rparr>"




subsection \<open>Mail and Attachment\<close>



subsection \<open>TacomailClient\<close>

text \<open>\<^verbatim>\<open>[...this.domainsCache]\<close>: a new array with the elements of the cached one.\<close>

definition spread :: "nat \<Rightarrow> world \<Rightarrow> nat \<times> world" where
  "spread r w = alloc_array (array_heap w ! r) w"

text \<open>
  \<open>getDomains\<close> returns a reference to the array it hands out. It runs in one turn when the
  cache is filled: no \<^verbatim>\<open>await\<close> is reached and the copy is made at once. When the cache is
  \<^verbatim>\<open>null\<close> it runs in two turns: the first tests the cache and sends the request, and is then
  waiting for the reply, which settles at a known instant; the second, after the
  \<^verbatim>\<open>await\<close>, makes the array of the response the cache and returns a copy of it. Other code
  may run between the two turns.
\<close>

datatype getDomains_turn = Awaiting "thrown + string list" int | Returned nat

definition getDomains_begin :: "env \<Rightarrow> TacomailClient \<Rightarrow> world \<Rightarrow> getDomains_turn \<times> world" where
  "getDomains_begin e c w =
     (case domainsCache c of
        None \<Rightarrow>
          (Awaiting (fst (axios_get_domains e w (client_server c)))
             (now w + int (snd (axios_get_domains e w (client_server c)))),
           w\<lparr>trace := trace w @ [(now w, GetDomains (client_server c))]\<rparr>)
      | Some cache \<Rightarrow> (let (copy, w1) = spread cache w in (Returned copy, w1)))"

definition getDomains_finish ::
  "getDomains_turn \<Rightarrow> TacomailClient \<Rightarrow> world \<Rightarrow> (error + nat) \<times> TacomailClient \<times> world" where
  "getDomains_finish turn c w =
     (case turn of
        Returned copy \<Rightarrow> (Inr copy, c, w)
      | Awaiting reply due \<Rightarrow>
          (case reply of
             Inl err \<Rightarrow> (Inl (handleApiError err ''GET /domains''), c, w\<lparr>now := max (now w) due\<rparr>)
           | Inr data \<Rightarrow>
               (let (cache, w1) = alloc_array data (w\<lparr>now := max (now w) due\<rparr>);
                    (copy, w2) = spread cache w1
                in (Inr copy, c\<lparr>domainsCache := Some cache\<rparr>, w2))))"

text \<open>A call of \<open>getDomains\<close> that is awaited with nothing running in between.\<close>

definition getDomains :: "env \<Rightarrow> TacomailClient \<Rightarrow> world \<Rightarrow> (error + nat) \<times> TacomailClient \<times> world" where
  "getDomains e c w = (case getDomains_begin e c w of (turn, w1) \<Rightarrow> getDomains_finish turn c w1)"

text \<open>
  Two calls on the same client, the second started while the first is still waiting; then
  the first finishes, then the second.
\<close>

definition overlapping_getDomains ::
  "env \<Rightarrow> TacomailClient \<Rightarrow> world \<Rightarrow> ((error + nat) \<times> (error + nat)) \<times> TacomailClient \<times> world" where
  "overlapping_getDomains e c w =
     (case getDomains_begin e c w of (first, w1) \<Rightarrow>
      case getDomains_begin e c w1 of (second, w2) \<Rightarrow>
      case getDomains_finish first c w2 of (r1, c1, w3) \<Rightarrow>
      case getDomains_finish second c1 w3 of (r2, c2, w4) \<Rightarrow> ((r1, r2), c2, w4))"

text \<open>
  \<open>options\<close> is the \<^verbatim>\<open>refreshInterval\<close> when the caller gave one. \<^verbatim>\<open>Map.set\<close> keeps the
  position of a key that is already there and appends a new one, as \<open>AList.update\<close> does.
\<close>

definition createInbox ::
  "env \<Rightarrow> TacomailClient \<Rightarrow> string \<Rightarrow> int option \<Rightarrow> world \<Rightarrow> (error + Inbox) \<times> TacomailClient \<times> world" where
  "createInbox e c address options w =
     (let parts = split_at CHR ''@'' address;
          username = element parts 0;
          domain = element parts 1
      in if \<not> truthy username \<or> \<not> truthy domain then
           (Inl (TacomailError ''Invalid email address format'' None None), c, w)
         else
           (case createSession e username domain (client_server c) w of
              (Inl err, w1) \<Rightarrow> (Inl err, c, w1)
            | (Inr expires, w1) \<Rightarrow>
                (let (session, w2) =
                       alloc_session
                         \<lparr>sess_address = address, sess_expires = expires, sess_server = client_server c\<rparr> w1;
                     c1 = c\<lparr>sessions := AList.update address session (sessions c)\<rparr>;
                     inbox = new_Inbox address (client_server c) (Some session)
                 in (Inr (case options of
                            None \<Rightarrow> inbox
                          | Some refreshInterval \<Rightarrow>
                              if refreshInterval \<noteq> 0 then enableAutoRefresh inbox refreshInterval
                              else inbox),
                     c1, w2))))"

definition getInbox :: "TacomailClient \<Rightarrow> string \<Rightarrow> Inbox" where
  "getInbox c address = new_Inbox address (client_server c) (map_of (sessions c) address)"


definition deleteSessionForInbox ::
  "env \<Rightarrow> TacomailClient \<Rightarrow> string \<Rightarrow> world \<Rightarrow> (error + unit) \<times> TacomailClient \<times> world" where
  "deleteSessionForInbox e c address w =
     (case map_of (sessions c) address of
        None \<Rightarrow> (Inr (), c, w)
      | Some session \<Rightarrow>
          (let parts = split_at CHR ''@'' address;
               username = element parts 0;
               domain = element parts 1
           in case deleteSession e username domain (client_server c) w of
                (Inl err, w1) \<Rightarrow> (Inl err, c, w1)
              | (Inr u, w1) \<Rightarrow> (Inr (), c\<lparr>sessions := AList.delete address (sessions c)\<rparr>, w1)))"

definition getActiveSessions :: "TacomailClient \<Rightarrow> world \<Rightarrow> Session list" where
  "getActiveSessions c w =
     filter (\<lambda>s. isValid s w) (map (\<lambda>(address, r). session_heap w ! r) (sessions c))"

text \<open>
  \<^verbatim>\<open>deleteAllSessions\<close> calls \<^verbatim>\<open>deleteSessionForInbox\<close> for every key before it awaits
  anything. Each of these calls runs up to the \<^verbatim>\<open>await\<close> inside the route, so every request is
  sent at the same instant, against the registry as it was. \<open>dispatch\<close> starts the calls in
  key order and keeps, for each, its outcome and the milliseconds after which it settles.
\<close>

fun dispatch ::
  "env \<Rightarrow> TacomailClient \<Rightarrow> string list \<Rightarrow> world \<Rightarrow> (string \<times> (error + unit) \<times> nat) list \<times> world" where
  "dispatch e c [] w = ([], w)"
| "dispatch e c (address # rest) w =
     (case deleteSessionForInbox e c address w of
        (r, c1, w1) \<Rightarrow>
          (case dispatch e c rest (w1\<lparr>now := now w\<rparr>) of
             (started, w2) \<Rightarrow> ((address, r, nat (now w1 - now w)) # started, w2)))"

text \<open>
  The calls settle after their latencies, and calls that settle in the same millisecond
  settle in the same turn of the event loop, where every continuation already queued runs
  before \<^verbatim>\<open>deleteAllSessions\<close> resumes. \<^verbatim>\<open>Promise.all\<close> rejects with the first failure to
  settle (the earliest started among those of the same millisecond).
\<close>

fun first_rejection :: "(string \<times> (error + unit) \<times> nat) list \<Rightarrow> (error \<times> nat) option" where
  "first_rejection [] = None"
| "first_rejection ((address, Inl err, ms) # rest) = Some (err, ms)"
| "first_rejection ((address, Inr u, ms) # rest) = first_rejection rest"

text \<open>
  A call that succeeds removes its key from the registry when it settles: \<open>fulfil limit\<close> removes
  the keys of the calls that have succeeded \<open>limit\<close> milliseconds after the start.
\<close>

fun fulfil ::
  "nat \<Rightarrow> (string \<times> (error + unit) \<times> nat) list \<Rightarrow> (string \<times> nat) list \<Rightarrow> (string \<times> nat) list" where
  "fulfil limit [] registry = registry"
| "fulfil limit ((address, Inl err, ms) # rest) registry = fulfil limit rest registry"
| "fulfil limit ((address, Inr u, ms) # rest) registry =
     fulfil limit rest (if ms \<le> limit then AList.delete address registry else registry)"

text \<open>
  The result of \<open>deleteAllSessions\<close>: the outcome, the client and the world at the moment the
  call returns or throws, and the calls still in flight at that moment. When no call fails,
  every call has removed its key and the registry is cleared.
\<close>

definition deleteAllSessions ::
  "env \<Rightarrow> TacomailClient \<Rightarrow> world
     \<Rightarrow> (error + unit) \<times> TacomailClient \<times> world \<times> (string \<times> (error + unit) \<times> nat) list" where
  "deleteAllSessions e c w =
     (case dispatch e c (map fst (sessions c)) w of
        (started, w1) \<Rightarrow>
          (case first_rejection (sort_key (\<lambda>(address, r, ms). ms) started) of
             None \<Rightarrow>
               (Inr (), c\<lparr>sessions := []\<rparr>,
                w1\<lparr>now := now w + int (fold max (map (\<lambda>(address, r, ms). ms) started) 0)\<rparr>, [])
           | Some (err, limit) \<Rightarrow>
               (Inl err, c\<lparr>sessions := fulfil limit started (sessions c)\<rparr>,
                w1\<lparr>now := now w + int limit\<rparr>,
                filter (\<lambda>(address, r, ms). limit < ms) started)))"

text \<open>The requests \<open>deleteAllSessions\<close> is expected to send from world \<open>w\<close>, in key order.\<close>

definition delete_request :: "TacomailClient \<Rightarrow> string \<Rightarrow> event" where
  "delete_request c address =
     DeleteSession (element (split_at CHR ''@'' address) 0) (element (split_at CHR ''@'' address) 1)
       (client_server c)"

definition delete_requests :: "TacomailClient \<Rightarrow> world \<Rightarrow> (int \<times> event) list" where
  "delete_requests c w = map (\<lambda>(address, r). (now w, delete_request c address)) (sessions c)"

subsection \<open>Every operation\<close>



text \<open>\<^verbatim>\<open>this.sessions.get(address)\<close>, read in world \<open>w\<close>.\<close>

definition registered :: "TacomailClient \<Rightarrow> world \<Rightarrow> string \<Rightarrow> Session option" where
  "registered c w address = map_option (\<lambda>r. session_heap w ! r) (map_of (sessions c) address)"

section \<open>Callers and fake services used in the statements below\<close>

text \<open>The default filter of \<^verbatim>\<open>waitForMail\<close>, \<^verbatim>\<open>() => true\<close>.\<close>

definition match_all :: "Mail \<Rightarrow> bool" where
  "match_all mail = True"

text \<open>
  A caller of \<^verbatim>\<open>getDomains\<close>: it calls again, or overwrites one of the arrays it was handed
  (the \<open>k\<close>-th it received). Every call is awaited before the next step is taken. The caller
  collects what each call returned, read when the call returns.
\<close>

datatype caller_step = CallGetDomains | Overwrite nat "string list"

fun caller ::
  "env \<Rightarrow> caller_step list \<Rightarrow> nat list \<Rightarrow> TacomailClient \<Rightarrow> world
     \<Rightarrow> (error + string list) list \<times> TacomailClient \<times> world" where
  "caller e [] got c w = ([], c, w)"
| "caller e (CallGetDomains # steps) got c w =
     (case getDomains e c w of
        (Inl err, c1, w1) \<Rightarrow>
          (case caller e steps got c1 w1 of (rs, c2, w2) \<Rightarrow> (Inl err # rs, c2, w2))
      | (Inr r, c1, w1) \<Rightarrow>
          (case caller e steps (got @ [r]) c1 w1 of
             (rs, c2, w2) \<Rightarrow> (Inr (array_heap w1 ! r) # rs, c2, w2)))"
| "caller e (Overwrite k xs # steps) got c w =
     caller e steps got c
       (if k < length got then w\<lparr>array_heap := (array_heap w)[got ! k := xs]\<rparr> else w)"

text \<open>
  A fake service that gives the same answer to every request of a kind, each after \<open>ms\<close>
  milliseconds, and a fake timer that waits the whole milliseconds of the delay it is given.
\<close>

definition fake_env ::
  "(thrown + string list) \<Rightarrow> (thrown + MailType list) \<Rightarrow> (thrown + int)
     \<Rightarrow> (string option \<Rightarrow> thrown + unit) \<Rightarrow> nat \<Rightarrow> env" where
  "fake_env domains mails expires del ms =
     \<lparr>axios_get_domains = (\<lambda>w server. (domains, ms)),
      axios_get_mail = (\<lambda>w address server. (mails, ms)),
      axios_post_session = (\<lambda>w username domain server. (expires, ms)),
      axios_delete_session = (\<lambda>w username domain server. (del username, ms)),
      axios_get_single_mail = (\<lambda>w address mailId server. (Inl NonError, ms)),
      axios_delete_mail = (\<lambda>w address mailId server. (Inr (), ms)),
      axios_delete_all_mail = (\<lambda>w address server. (Inr (), ms)),
      axios_download_attachment = (\<lambda>w address mailId attachmentId server. (Inr [], ms)),
      axios_get_attachments = (\<lambda>w address mailId server. (Inr [], ms)),
      axios_get_contact_email = (\<lambda>w server. (Inr (Field (Some ''admin@tacomail.de'')), ms)),
      axios_get_random_username = (\<lambda>w server. (Inr (Field (Some ''taco'')), ms)),
      math_random = (\<lambda>w n. 0),
      timer_wait = (\<lambda>w delay. case delay of Finite q \<Rightarrow> nat \<lfloor>q\<rfloor> | _ \<Rightarrow> 0),
      number_digits = (\<lambda>q. ''not a safe integer'')\<rparr>"

definition ex_world :: world where
  "ex_world = \<lparr>now = 1000, trace = [], session_heap = [], array_heap = []\<rparr>"

definition ex_mail :: MailType where
  "ex_mail =
     \<lparr>mt_id = ''m1'', mt_from = \<lparr>ea_address = ''x@y.z'', ea_name = ''X''\<rparr>,
      mt_to = \<lparr>ea_address = ''a@b.c'', ea_name = []\<rparr>, mt_subject = ''hello'',
      mt_date = ''2024-01-01T00:00:00Z'', mt_body_text = ''hi'', mt_body_html = [],
      mt_headers = [], mt_attachments = []\<rparr>"

definition ex_session :: "int \<Rightarrow> Session" where
  "ex_session expires = \<lparr>sess_address = ''a@b.c'', sess_expires = expires, sess_server = ''srv''\<rparr>"

text \<open>
  The fake service of the examples: every list call returns \<open>mails\<close>, every session request
  an expiry of \<open>expires\<close>, every request takes \<open>ms\<close> milliseconds, and deleting the session of
  user \<^verbatim>\<open>b\<close> fails with status 500.
\<close>

definition ex_env :: "MailType list \<Rightarrow> int \<Rightarrow> nat \<Rightarrow> env" where
  "ex_env mails expires ms =
     fake_env (Inr [''tacomail.de'', ''example.org'']) (Inr mails) (Inr expires)
       (\<lambda>username. if username = Some ''b'' then Inl (AxiosError (Some 500) None None ''boom'')
                    else Inr ())
       ms"

definition ex_inbox :: "nat option \<Rightarrow> Inbox" where
  "ex_inbox session = new_Inbox ''a@b.c'' ''srv'' session"


text \<open>
  What the service answers to the \<open>i\<close>-th of these requests: it is sent from world \<open>w\<close> with
  the \<open>i\<close> requests before it already in the trace.
\<close>

definition delete_reply :: "env \<Rightarrow> TacomailClient \<Rightarrow> world \<Rightarrow> nat \<Rightarrow> thrown + unit" where
  "delete_reply e c w i =
     fst (axios_delete_session e (w\<lparr>trace := trace w @ take i (delete_requests c w)\<rparr>)
            (element (split_at CHR ''@'' (fst (sessions c ! i))) 0)
            (element (split_at CHR ''@'' (fst (sessions c ! i))) 1)
            (client_server c))"

text \<open>A client with three registered sessions, and a world that holds their objects.\<close>

definition ex_client :: TacomailClient where
  "ex_client =
     \<lparr>client_server = ''srv'', domainsCache = None,
      sessions = [(''a@x.y'', 0), (''b@x.y'', 1), (''c@x.y'', 2)]\<rparr>"

definition ex_client_world :: world where
  "ex_client_world =
     ex_world\<lparr>session_heap :=
       [\<lparr>sess_address = ''a@x.y'', sess_expires = 5000, sess_server = ''srv''\<rparr>,
        \<lparr>sess_address = ''b@x.y'', sess_expires = 5000, sess_server = ''srv''\<rparr>,
        \<lparr>sess_address = ''c@x.y'', sess_expires = 5000, sess_server = ''srv''\<rparr>]\<rparr>"

text \<open>
  A service whose list calls all fail with status 500, and one whose first list call
  succeeds and whose later ones fail.
\<close>

definition down_env :: env where
  "down_env =
     fake_env (Inr []) (Inl (AxiosError (Some 500) None None ''boom'')) (Inr 99999)
       (\<lambda>username. Inr ()) 0"


section \<open>Refreshing without a valid session\<close>

lemma handleApiError_endpoint: "err_endpoint (handleApiError t ep) \<noteq> None"
  by (cases t) (simp_all add: handleApiError_def TacomailError_def InboxNotFoundError_def)

text \<open>
  C4. An Inbox that holds no Session: \<open>refreshSession\<close> fails with the locally built error
  \<^verbatim>\<open>TacomailError('No session to refresh')\<close> and leaves the world as it was, so nothing is
  sent to the service (the trace is unchanged). The error carries no endpoint, which no error
  built by \<open>handleApiError\<close> for a failed request does: it differs from every service error.
\<close>

theorem refreshSession_no_session:
  "inbox_session inbox = None \<Longrightarrow>
     refreshSession e inbox w = (Inl (TacomailError ''No session to refresh'' None None), w)
     \<and> handleApiError t ep \<noteq> TacomailError ''No session to refresh'' None None"
proof -
  assume "inbox_session inbox = None"
  then have "refreshSession e inbox w = (Inl (TacomailError ''No session to refresh'' None None), w)"
    by (simp add: refreshSession_def)
  moreover have "handleApiError t ep \<noteq> TacomailError ''No session to refresh'' None None"
    using handleApiError_endpoint [of t ep] by (auto simp: TacomailError_def)
  ultimately show ?thesis by simp
qed

theorem refreshSession_no_session_witness:
  "inbox_session (new_Inbox ''a@b.c'' ''srv'' None) = None
   \<and> refreshSession (fake_env (Inr []) (Inr []) (Inr 99999) (\<lambda>u. Inr ()) 0)
        (new_Inbox ''a@b.c'' ''srv'' None) ex_world
      = (Inl (TacomailError ''No session to refresh'' None None), ex_world)
   \<and> handleApiError NonError ''POST /session'' \<noteq> TacomailError ''No session to refresh'' None None"
  using refreshSession_no_session
    [of "new_Inbox ''a@b.c'' ''srv'' None" "fake_env (Inr []) (Inr []) (Inr 99999) (\<lambda>u. Inr ()) 0"
        ex_world NonError "''POST /session''"]
  by (simp add: new_Inbox_def)

text \<open>
  C3. An Inbox whose Session is no longer valid (\<open>now \<ge> expires\<close>): \<open>refreshSession\<close> fails
  with \<^verbatim>\<open>SessionExpiredError\<close> for the inbox's address and leaves the world as it was: no
  request is sent and the Session object is not touched.
\<close>

theorem refreshSession_expired:
  "inbox_session inbox = Some r \<Longrightarrow> sess_expires (session_heap w ! r) \<le> now w \<Longrightarrow>
     refreshSession e inbox w =
       (Inl \<lparr>err_name = ''SessionExpiredError'',
             err_message = ''Session for '' @ inbox_address inbox @ '' has expired'',
             err_statusCode = Some 401, err_endpoint = Some ''session''\<rparr>, w)"
  by (simp add: refreshSession_def isValid_def SessionExpiredError_def TacomailError_def)

theorem refreshSession_expired_witness:
  "inbox_session (new_Inbox ''a@b.c'' ''srv'' (Some 0)) = Some 0
   \<and> sess_expires (session_heap (ex_world\<lparr>session_heap := [ex_session 1000]\<rparr>) ! 0)
       \<le> now (ex_world\<lparr>session_heap := [ex_session 1000]\<rparr>)
   \<and> refreshSession (fake_env (Inr []) (Inr []) (Inr 99999) (\<lambda>u. Inr ()) 0)
        (new_Inbox ''a@b.c'' ''srv'' (Some 0)) (ex_world\<lparr>session_heap := [ex_session 1000]\<rparr>)
      = (Inl \<lparr>err_name = ''SessionExpiredError'',
              err_message = ''Session for a@b.c has expired'',
              err_statusCode = Some 401, err_endpoint = Some ''session''\<rparr>,
         ex_world\<lparr>session_heap := [ex_session 1000]\<rparr>)"
  using refreshSession_expired
    [of "new_Inbox ''a@b.c'' ''srv'' (Some 0)" 0 "ex_world\<lparr>session_heap := [ex_session 1000]\<rparr>"
        "fake_env (Inr []) (Inr []) (Inr 99999) (\<lambda>u. Inr ()) 0"]
  by (simp add: new_Inbox_def ex_world_def ex_session_def)

section \<open>Waiting for mail\<close>

lemma getAllMail_ok:
  "fst (axios_get_mail e w (inbox_address inbox) (inbox_server inbox)) = Inr ms \<Longrightarrow>
     getAllMail e inbox w =
       (Inr (map (\<lambda>mail. new_Mail mail (inbox_address inbox) (inbox_server inbox)) ms),
        emit (GetMail (inbox_address inbox) (inbox_server inbox))
          (snd (axios_get_mail e w (inbox_address inbox) (inbox_server inbox))) w)"
  by (simp add: getAllMail_def getMailForAddress_def route_def)

lemma getAllMail_failed:
  "fst (axios_get_mail e w (inbox_address inbox) (inbox_server inbox)) = Inl t \<Longrightarrow>
     getAllMail e inbox w =
       (Inl (handleApiError t (''GET /mail/'' @ inbox_address inbox)),
        emit (GetMail (inbox_address inbox) (inbox_server inbox))
          (snd (axios_get_mail e w (inbox_address inbox) (inbox_server inbox))) w)"
  by (simp add: getAllMail_def getMailForAddress_def route_def)

lemma now_emit: "now (emit ev ms w) = now w + int ms"
  by (simp add: emit_def)

lemma trace_emit: "trace (emit ev ms w) = trace w @ [(now w, ev)]"
  by (simp add: emit_def)

lemma poll_expired:
  "\<not> js_less (now w - start) timeout \<Longrightarrow>
     poll e inbox pred timeout interval start ids w = Some (Inl (timeout_error e timeout), w)"
  by (subst poll.simps) simp

lemma find_new_none:
  "set (map mail_id mails) \<subseteq> set ids \<Longrightarrow>
     find (\<lambda>mail. mail_id mail \<notin> set ids \<and> pred mail) mails = None"
  by (auto simp: find_None_iff)


lemma js_le_zero_not_less: "js_le_zero timeout \<Longrightarrow> 0 \<le> d \<Longrightarrow> \<not> js_less d timeout"
  by (cases timeout) (auto simp: js_le_zero_def js_less_def)


text \<open>
  C10, as it fails. The list call of the baseline fetch fails with status 500. With a timeout
  of 0 the call makes that one request and fails with the error of the route, which is not the
  Timeout error.
\<close>

theorem waitForMail_nonpositive_timeout_counterexample:
  "waitForMail down_env (ex_inbox None) match_all (Finite 0) (Finite 2000) ex_world =
     Some (Inl (TacomailError ''boom'' (Some 500) (Some ''GET /mail/a@b.c'')),
           ex_world\<lparr>trace := [(1000, GetMail ''a@b.c'' ''srv'')]\<rparr>)"
  by code_simp

text \<open>
  C10, amended. With \<open>timeout \<le> 0\<close> the baseline fetch is the only request: the world at the
  end is the world at the start with one list call added to the trace and the clock moved by
  that call's latency, and no poll iteration runs. No Mail is returned, whatever the inbox
  holds: the call fails with the Timeout error when the baseline fetch succeeds, and with the
  error of that fetch when it fails.
\<close>

theorem waitForMail_nonpositive_timeout:
  "js_le_zero timeout \<Longrightarrow>
     waitForMail e inbox pred timeout interval w =
       Some (case fst (axios_get_mail e w (inbox_address inbox) (inbox_server inbox)) of
               Inl t \<Rightarrow> Inl (handleApiError t (''GET /mail/'' @ inbox_address inbox))
             | Inr ms \<Rightarrow>
                 Inl (TacomailError (''Timeout waiting for email after '' @ toString e timeout @ ''ms'')
                        None None),
             w\<lparr>now := now w
                  + int (snd (axios_get_mail e w (inbox_address inbox) (inbox_server inbox))),
               trace := trace w @ [(now w, GetMail (inbox_address inbox) (inbox_server inbox))]\<rparr>)"
proof (cases "fst (axios_get_mail e w (inbox_address inbox) (inbox_server inbox))")
  case (Inl t)
  then show ?thesis
    by (simp add: waitForMail_def getAllMail_failed emit_def)
next
  case (Inr ms)
  let ?w1 = "emit (GetMail (inbox_address inbox) (inbox_server inbox))
          (snd (axios_get_mail e w (inbox_address inbox) (inbox_server inbox))) w"
  assume "js_le_zero timeout"
  moreover have "0 \<le> now ?w1 - now w"
    by (simp add: now_emit)
  ultimately have "\<not> js_less (now ?w1 - now w) timeout"
    by (rule js_le_zero_not_less)
  then have "waitForMail e inbox pred timeout interval w = Some (Inl (timeout_error e timeout), ?w1)"
    using Inr by (simp add: waitForMail_def getAllMail_ok poll_expired)
  then show ?thesis using Inr
    by (simp add: timeout_error_def emit_def)
qed

theorem waitForMail_nonpositive_timeout_witness:
  "js_le_zero (Finite 0)
   \<and> waitForMail (ex_env [ex_mail] 99999 7) (ex_inbox None) match_all (Finite 0) (Finite 2000) ex_world =
       Some (Inl (TacomailError ''Timeout waiting for email after 0ms'' None None),
             ex_world\<lparr>now := 1007, trace := [(1000, GetMail ''a@b.c'' ''srv'')]\<rparr>)"
proof -
  have z: "js_le_zero (Finite 0)"
    by (simp add: js_le_zero_def)
  have a: "inbox_address (ex_inbox None) = ''a@b.c''" and b: "inbox_server (ex_inbox None) = ''srv''"
    by (simp_all add: ex_inbox_def new_Inbox_def)
  have reply: "axios_get_mail (ex_env [ex_mail] 99999 7) ex_world ''a@b.c'' ''srv'' = (Inr [ex_mail], 7)"
    by (simp add: ex_env_def fake_env_def)
  have msg: "''Timeout waiting for email after '' @ toString (ex_env [ex_mail] 99999 7) (Finite 0) @ ''ms''
               = ''Timeout waiting for email after 0ms''"
    by (simp add: toString_def show_int_def digits.simps)
  have w: "ex_world\<lparr>now := now ex_world + int 7, trace := trace ex_world @ [(now ex_world, GetMail ''a@b.c'' ''srv'')]\<rparr>
             = ex_world\<lparr>now := 1007, trace := [(1000, GetMail ''a@b.c'' ''srv'')]\<rparr>"
    by (simp add: ex_world_def)
  note r = waitForMail_nonpositive_timeout [OF z, of "ex_env [ex_mail] 99999 7" "ex_inbox None" match_all
      "Finite 2000" ex_world, unfolded a b reply fst_conv snd_conv sum.case msg w]
  from z r show ?thesis
    by (intro conjI)
qed

text \<open>
  C1, as it fails. The fake service answers every list call at once with the same mail; the
  filter matches everything; the sleep interval is 2000 ms. The call returns that mail with
  the clock still at its start value 1000 and a trace of two list calls and no sleep: no sleep
  interval has elapsed when the mail is returned, not one.
\<close>

theorem waitForMail_preexisting_counterexample:
  "waitForMail (ex_env [ex_mail] 99999 0) (ex_inbox None) match_all (Finite 120000) (Finite 2000)
     ex_world =
     Some (Inr (new_Mail ex_mail ''a@b.c'' ''srv''),
           \<lparr>now = 1000,
            trace = [(1000, GetMail ''a@b.c'' ''srv''), (1000, GetMail ''a@b.c'' ''srv'')],
            session_heap = [], array_heap = []\<rparr>)"
  by code_simp

text \<open>
  C1, amended. The service answers every list call with the same non-empty list and the
  baseline fetch ends within the budget. With the match-all filter the call returns the first
  mail of that list after exactly two list calls, the baseline fetch and the first poll, and
  without sleeping: the only time that passes is the latency of the two calls.
\<close>

theorem waitForMail_preexisting:
  assumes same: "\<And>w0. fst (axios_get_mail e w0 (inbox_address inbox) (inbox_server inbox)) = Inr (m # ms)"
    and l0: "snd (axios_get_mail e w (inbox_address inbox) (inbox_server inbox)) = l0"
    and budget: "js_less (int l0) timeout"
  shows "\<exists>l1. waitForMail e inbox match_all timeout interval w =
           Some (Inr (new_Mail m (inbox_address inbox) (inbox_server inbox)),
                 w\<lparr>now := now w + int l0 + int l1,
                   trace := trace w @ [(now w, GetMail (inbox_address inbox) (inbox_server inbox)),
                                       (now w + int l0, GetMail (inbox_address inbox) (inbox_server inbox))]\<rparr>)"
proof -
  let ?a = "inbox_address inbox" and ?s = "inbox_server inbox"
  let ?w1 = "emit (GetMail ?a ?s) l0 w"
  let ?l1 = "snd (axios_get_mail e ?w1 ?a ?s)"
  let ?mails = "map (\<lambda>mail. new_Mail mail ?a ?s) (m # ms)"
  have base: "getAllMail e inbox w = (Inr ?mails, ?w1)"
    using getAllMail_ok [OF same, of w] l0 by simp
  have in_budget: "js_less (now ?w1 - now w) timeout"
    using budget by (simp add: now_emit)
  have first: "getAllMail e inbox ?w1 = (Inr ?mails, emit (GetMail ?a ?s) ?l1 ?w1)"
    using same by (rule getAllMail_ok)
  have no_new: "find (\<lambda>mail. mail_id mail \<notin> set (map mail_id ?mails) \<and> match_all mail) ?mails = None"
    by (rule find_new_none) simp
  have old: "find (\<lambda>mail. mail_id mail \<in> set (map mail_id ?mails) \<and> match_all mail) ?mails
               = Some (new_Mail m ?a ?s)"
    by (simp add: match_all_def)
  have "poll e inbox match_all timeout interval (now w) (map mail_id ?mails) ?w1
          = Some (Inr (new_Mail m ?a ?s), emit (GetMail ?a ?s) ?l1 ?w1)"
    by (subst poll.simps) (simp only: in_budget first no_new old if_True prod.case sum.case option.case)
  then have "waitForMail e inbox match_all timeout interval w
               = Some (Inr (new_Mail m ?a ?s), emit (GetMail ?a ?s) ?l1 ?w1)"
    by (simp add: waitForMail_def base)
  then show ?thesis
    by (auto simp: emit_def intro!: exI [of _ ?l1])
qed

theorem waitForMail_preexisting_witness:
  "fst (axios_get_mail (ex_env [ex_mail] 99999 7) ex_world ''a@b.c'' ''srv'') = Inr [ex_mail]
   \<and> snd (axios_get_mail (ex_env [ex_mail] 99999 7) ex_world ''a@b.c'' ''srv'') = 7
   \<and> js_less (int 7) (Finite 120000)
   \<and> (\<exists>l1. waitForMail (ex_env [ex_mail] 99999 7) (ex_inbox None) match_all (Finite 120000)
               (Finite 2000) ex_world =
         Some (Inr (new_Mail ex_mail ''a@b.c'' ''srv''),
               ex_world\<lparr>now := 1007 + int l1,
                 trace := [(1000, GetMail ''a@b.c'' ''srv''), (1007, GetMail ''a@b.c'' ''srv'')]\<rparr>))"
  using waitForMail_preexisting
    [of "ex_env [ex_mail] 99999 7" "ex_inbox None" ex_mail "[]" ex_world 7 "Finite 120000" "Finite 2000"]
  by (simp add: ex_env_def fake_env_def ex_inbox_def new_Inbox_def ex_world_def js_less_def)






section \<open>Refreshing a valid session\<close>

lemma snd_route: "snd (route ev ep reply w) = emit ev (snd reply) w"
  by (cases "fst reply") (simp_all add: route_def)

lemma fst_route_Inr: "fst (route ev ep reply w) = Inr x \<Longrightarrow> fst reply = Inr x"
  by (cases "fst reply") (simp_all add: route_def)


lemma createSession_world:
  "createSession e u d s w = (r, w1) \<Longrightarrow>
     w1 = emit (PostSession u d s) (snd (axios_post_session e w u d s)) w"
  using snd_route [of "PostSession u d s" "''POST /session''" "axios_post_session e w u d s" w]
  by (simp add: createSession_def)

lemma createSession_reply:
  "createSession e u d s w = (Inr expires, w1) \<Longrightarrow> fst (axios_post_session e w u d s) = Inr expires"
  using fst_route_Inr [of "PostSession u d s" "''POST /session''" "axios_post_session e w u d s" w expires]
  by (simp add: createSession_def)

lemma session_heap_emit: "session_heap (emit ev ms w) = session_heap w"
  by (simp add: emit_def)

lemma array_heap_emit: "array_heap (emit ev ms w) = array_heap w"
  by (simp add: emit_def)

lemma refreshSession_success:
  assumes ok: "refreshSession e inbox w = (Inr (), w')"
  obtains r expires where
    "inbox_session inbox = Some r"
    "now w < sess_expires (session_heap w ! r)"
    "fst (axios_post_session e w (element (split_at CHR ''@'' (inbox_address inbox)) 0)
            (element (split_at CHR ''@'' (inbox_address inbox)) 1) (inbox_server inbox)) = Inr expires"
    "session_heap w' = (session_heap w)[r := (session_heap w ! r)\<lparr>sess_expires := expires\<rparr>]"
    "array_heap w' = array_heap w"
proof -
  let ?u = "element (split_at CHR ''@'' (inbox_address inbox)) 0"
  let ?d = "element (split_at CHR ''@'' (inbox_address inbox)) 1"
  from ok obtain r where r: "inbox_session inbox = Some r"
    by (cases "inbox_session inbox") (simp_all add: refreshSession_def)
  have valid: "isValid (session_heap w ! r) w"
  proof (rule ccontr)
    assume "\<not> isValid (session_heap w ! r) w"
    with ok r show False by (simp add: refreshSession_def)
  qed
  obtain res w1 where cs: "createSession e ?u ?d (inbox_server inbox) w = (res, w1)"
    by (cases "createSession e ?u ?d (inbox_server inbox) w")
  have unfolded: "refreshSession e inbox w =
      (case res of Inl err \<Rightarrow> (Inl err, w1)
       | Inr expires \<Rightarrow> (Inr (), w1\<lparr>session_heap :=
            (session_heap w1)[r := (session_heap w1 ! r)\<lparr>sess_expires := expires\<rparr>]\<rparr>))"
    using r valid cs by (simp add: refreshSession_def)
  from ok unfolded obtain expires where res: "res = Inr expires"
    and w': "w' = w1\<lparr>session_heap := (session_heap w1)[r := (session_heap w1 ! r)\<lparr>sess_expires := expires\<rparr>]\<rparr>"
    by (cases res) simp_all
  from createSession_world [OF cs] have same: "session_heap w1 = session_heap w" "array_heap w1 = array_heap w"
    by (simp_all add: session_heap_emit array_heap_emit)
  show thesis
  proof (rule that [of r expires])
    show "inbox_session inbox = Some r" by (rule r)
    show "now w < sess_expires (session_heap w ! r)" using valid by (simp add: isValid_def)
    show "fst (axios_post_session e w ?u ?d (inbox_server inbox)) = Inr expires"
      using cs res createSession_reply by simp
    show "session_heap w' = (session_heap w)[r := (session_heap w ! r)\<lparr>sess_expires := expires\<rparr>]"
      using w' same by simp
    show "array_heap w' = array_heap w"
      using w' same by simp
  qed
qed

section \<open>Creating an inbox\<close>

lemma createInbox_valid:
  assumes u: "element (split_at CHR ''@'' address) 0 = Some u"
    and d: "element (split_at CHR ''@'' address) 1 = Some d"
    and ne: "u \<noteq> []" "d \<noteq> []"
  shows "createInbox e c address options w =
           (case createSession e (Some u) (Some d) (client_server c) w of
              (Inl err, w1) \<Rightarrow> (Inl err, c, w1)
            | (Inr expires, w1) \<Rightarrow>
                (Inr (case options of
                        None \<Rightarrow> new_Inbox address (client_server c) (Some (length (session_heap w1)))
                      | Some refreshInterval \<Rightarrow>
                          if refreshInterval \<noteq> 0
                          then enableAutoRefresh
                                 (new_Inbox address (client_server c) (Some (length (session_heap w1))))
                                 refreshInterval
                          else new_Inbox address (client_server c) (Some (length (session_heap w1)))),
                 c\<lparr>sessions := AList.update address (length (session_heap w1)) (sessions c)\<rparr>,
                 w1\<lparr>session_heap := session_heap w1 @
                      [\<lparr>sess_address = address, sess_expires = expires, sess_server = client_server c\<rparr>]\<rparr>))"
proof (cases "createSession e (Some u) (Some d) (client_server c) w")
  case (Pair res w1)
  show ?thesis
  proof (cases res)
    case (Inl err)
    with Pair u d ne show ?thesis
      by (simp add: createInbox_def truthy_def)
  next
    case (Inr expires)
    with Pair u d ne show ?thesis
      by (simp add: createInbox_def truthy_def alloc_session_def Let_def)
  qed
qed

lemma inbox_of_options:
  "inbox_address (case options of None \<Rightarrow> new_Inbox a s r
      | Some i \<Rightarrow> if i \<noteq> 0 then enableAutoRefresh (new_Inbox a s r) i else new_Inbox a s r) = a"
  "inbox_session (case options of None \<Rightarrow> new_Inbox a s r
      | Some i \<Rightarrow> if i \<noteq> 0 then enableAutoRefresh (new_Inbox a s r) i else new_Inbox a s r) = r"
  "inbox_server (case options of None \<Rightarrow> new_Inbox a s r
      | Some i \<Rightarrow> if i \<noteq> 0 then enableAutoRefresh (new_Inbox a s r) i else new_Inbox a s r) = s"
  by (cases options; simp add: new_Inbox_def enableAutoRefresh_def)+

lemma createInbox_success:
  assumes ok: "createInbox e c address options w = (Inr inbox, c1, w1)"
  shows "inbox_address inbox = address
         \<and> inbox_session inbox = Some (length (session_heap w))
         \<and> map_of (sessions c1) address = Some (length (session_heap w))
         \<and> length (session_heap w1) = Suc (length (session_heap w))
         \<and> sess_address (session_heap w1 ! length (session_heap w)) = address"
proof -
  let ?u = "element (split_at CHR ''@'' address) 0" and ?d = "element (split_at CHR ''@'' address) 1"
  have ud: "truthy ?u" "truthy ?d"
    using ok by (auto simp: createInbox_def Let_def split: if_splits)
  then obtain u d where u: "?u = Some u" "u \<noteq> []" and d: "?d = Some d" "d \<noteq> []"
    by (auto simp: truthy_def split: option.splits)
  obtain res w0 where cs: "createSession e (Some u) (Some d) (client_server c) w = (res, w0)"
    by (cases "createSession e (Some u) (Some d) (client_server c) w")
  have heap0: "session_heap w0 = session_heap w"
    using createSession_world [OF cs] by (simp add: session_heap_emit)
  note eq = createInbox_valid [OF u(1) d(1) u(2) d(2), of e c options w, unfolded cs prod.case]
  from ok eq obtain expires where res: "res = Inr expires"
    by (cases res) simp_all
  from ok eq res have
    inbox: "inbox = (case options of
                        None \<Rightarrow> new_Inbox address (client_server c) (Some (length (session_heap w0)))
                      | Some refreshInterval \<Rightarrow>
                          if refreshInterval \<noteq> 0
                          then enableAutoRefresh
                                 (new_Inbox address (client_server c) (Some (length (session_heap w0))))
                                 refreshInterval
                          else new_Inbox address (client_server c) (Some (length (session_heap w0))))"
    and c1: "c1 = c\<lparr>sessions := AList.update address (length (session_heap w0)) (sessions c)\<rparr>"
    and w1: "w1 = w0\<lparr>session_heap := session_heap w0 @
                      [\<lparr>sess_address = address, sess_expires = expires, sess_server = client_server c\<rparr>]\<rparr>"
    by simp_all
  show ?thesis
    unfolding inbox c1 w1 inbox_of_options heap0
    by (simp add: update_conv')
qed






text \<open>
  C6, as it fails. An inbox is created for \<^verbatim>\<open>a@b.c\<close>, and then a second one for the same
  address: the registry now holds the second Session object under that address, while the
  first Inbox still holds the first, which is valid. Refreshing the first Inbox succeeds and
  moves the expiry of its own Session from 5000 to 9000; the Session the client has
  registered for \<^verbatim>\<open>a@b.c\<close> still expires at 5000.
\<close>

theorem refreshSession_in_place_counterexample:
  "createInbox (ex_env [] 5000 0) (new_TacomailClient ''srv'') ''a@b.c'' None ex_world
     = (Inr (ex_inbox (Some 0)),
        \<lparr>client_server = ''srv'', domainsCache = None, sessions = [(''a@b.c'', 0)]\<rparr>,
        ex_world\<lparr>trace := [(1000, PostSession (Some ''a'') (Some ''b.c'') ''srv'')],
                 session_heap := [ex_session 5000]\<rparr>)
   \<and> createInbox (ex_env [] 5000 0)
        \<lparr>client_server = ''srv'', domainsCache = None, sessions = [(''a@b.c'', 0)]\<rparr> ''a@b.c'' None
        (ex_world\<lparr>trace := [(1000, PostSession (Some ''a'') (Some ''b.c'') ''srv'')],
                  session_heap := [ex_session 5000]\<rparr>)
     = (Inr (ex_inbox (Some 1)),
        \<lparr>client_server = ''srv'', domainsCache = None, sessions = [(''a@b.c'', 1)]\<rparr>,
        ex_world\<lparr>trace := [(1000, PostSession (Some ''a'') (Some ''b.c'') ''srv''),
                           (1000, PostSession (Some ''a'') (Some ''b.c'') ''srv'')],
                 session_heap := [ex_session 5000, ex_session 5000]\<rparr>)
   \<and> refreshSession (ex_env [] 9000 0) (ex_inbox (Some 0))
        (ex_world\<lparr>trace := [(1000, PostSession (Some ''a'') (Some ''b.c'') ''srv''),
                            (1000, PostSession (Some ''a'') (Some ''b.c'') ''srv'')],
                  session_heap := [ex_session 5000, ex_session 5000]\<rparr>)
     = (Inr (),
        ex_world\<lparr>trace := [(1000, PostSession (Some ''a'') (Some ''b.c'') ''srv''),
                           (1000, PostSession (Some ''a'') (Some ''b.c'') ''srv''),
                           (1000, PostSession (Some ''a'') (Some ''b.c'') ''srv'')],
                 session_heap := [ex_session 9000, ex_session 5000]\<rparr>)
   \<and> registered \<lparr>client_server = ''srv'', domainsCache = None, sessions = [(''a@b.c'', 1)]\<rparr>
        (ex_world\<lparr>trace := [(1000, PostSession (Some ''a'') (Some ''b.c'') ''srv''),
                            (1000, PostSession (Some ''a'') (Some ''b.c'') ''srv''),
                            (1000, PostSession (Some ''a'') (Some ''b.c'') ''srv'')],
                  session_heap := [ex_session 9000, ex_session 5000]\<rparr>) ''a@b.c''
     = Some (ex_session 5000)"
  by code_simp

text \<open>
  C6, amended. A successful \<open>refreshSession\<close> of an Inbox that holds the Session object \<open>r\<close>
  changes, in the whole heap, only the \<^verbatim>\<open>expires\<close> field of that one object: its address and
  server, every other Session and every array stay as they were. A client whose registry holds
  that same object under an address reads the new expiry there; a client whose registry holds
  another object under the address, or none, reads what it read before. The registry holds the
  same object as the Inbox right after the \<open>createInbox\<close> that made the Inbox, and \<open>getInbox\<close>
  then hands that object out again.
\<close>

theorem refreshSession_in_place:
  assumes held: "inbox_session inbox = Some r"
    and live: "r < length (session_heap w)"
    and ok: "refreshSession e inbox w = (Inr (), w')"
  shows "session_heap w' =
           (session_heap w)[r := (session_heap w ! r)\<lparr>sess_expires := sess_expires (session_heap w' ! r)\<rparr>]
         \<and> sess_address (session_heap w' ! r) = sess_address (session_heap w ! r)
         \<and> sess_server (session_heap w' ! r) = sess_server (session_heap w ! r)
         \<and> array_heap w' = array_heap w
         \<and> (map_of (sessions c) a = Some r \<longrightarrow>
              registered c w' a
                = Some ((session_heap w ! r)\<lparr>sess_expires := sess_expires (session_heap w' ! r)\<rparr>))
         \<and> (map_of (sessions c) a \<noteq> Some r \<longrightarrow> registered c w' a = registered c w a)
         \<and> (createInbox e0 c0 address options w0 = (Inr inbox, c1, w1) \<longrightarrow>
              map_of (sessions c1) address = Some r \<and> inbox_session (getInbox c1 address) = Some r)"
  using ok
proof (rule refreshSession_success)
  fix r' expires
  assume "inbox_session inbox = Some r'"
    and heap: "session_heap w' = (session_heap w)[r' := (session_heap w ! r')\<lparr>sess_expires := expires\<rparr>]"
    and arrays: "array_heap w' = array_heap w"
  with held have r': "r' = r" by simp
  from heap live have new: "session_heap w' ! r = (session_heap w ! r)\<lparr>sess_expires := expires\<rparr>"
    unfolding r' by simp
  have upd: "session_heap w' =
          (session_heap w)[r := (session_heap w ! r)\<lparr>sess_expires := sess_expires (session_heap w' ! r)\<rparr>]"
    using heap unfolding r' new by simp
  have addr: "sess_address (session_heap w' ! r) = sess_address (session_heap w ! r)"
    unfolding new by simp
  have srv: "sess_server (session_heap w' ! r) = sess_server (session_heap w ! r)"
    unfolding new by simp
  have same: "map_of (sessions c) a = Some r \<longrightarrow>
              registered c w' a
                = Some ((session_heap w ! r)\<lparr>sess_expires := sess_expires (session_heap w' ! r)\<rparr>)"
    using new by (simp add: registered_def)
  have other: "map_of (sessions c) a \<noteq> Some r \<longrightarrow> registered c w' a = registered c w a"
  proof
    assume ne: "map_of (sessions c) a \<noteq> Some r"
    show "registered c w' a = registered c w a"
    proof (cases "map_of (sessions c) a")
      case None
      then show ?thesis by (simp add: registered_def)
    next
      case (Some r2)
      with ne have "r2 \<noteq> r" by simp
      then have "session_heap w' ! r2 = session_heap w ! r2"
        unfolding heap r' by simp
      with Some show ?thesis by (simp add: registered_def)
    qed
  qed
  have made: "createInbox e0 c0 address options w0 = (Inr inbox, c1, w1) \<longrightarrow>
              map_of (sessions c1) address = Some r \<and> inbox_session (getInbox c1 address) = Some r"
  proof
    assume "createInbox e0 c0 address options w0 = (Inr inbox, c1, w1)"
    from createInbox_success [OF this] held
    have "map_of (sessions c1) address = Some r" by simp
    then show "map_of (sessions c1) address = Some r \<and> inbox_session (getInbox c1 address) = Some r"
      by (simp add: getInbox_def new_Inbox_def)
  qed
  from upd addr srv arrays same other made show ?thesis
    by (intro conjI)
qed

theorem refreshSession_in_place_witness:
  "createInbox (ex_env [] 5000 0) (new_TacomailClient ''srv'') ''a@b.c'' None ex_world
     = (Inr (ex_inbox (Some 0)),
        \<lparr>client_server = ''srv'', domainsCache = None, sessions = [(''a@b.c'', 0)]\<rparr>,
        ex_world\<lparr>trace := [(1000, PostSession (Some ''a'') (Some ''b.c'') ''srv'')],
                 session_heap := [ex_session 5000]\<rparr>)
   \<and> inbox_session (ex_inbox (Some 0)) = Some 0
   \<and> refreshSession (ex_env [] 9000 0) (ex_inbox (Some 0)) (ex_world\<lparr>session_heap := [ex_session 5000]\<rparr>)
     = (Inr (), ex_world\<lparr>trace := [(1000, PostSession (Some ''a'') (Some ''b.c'') ''srv'')],
                        session_heap := [ex_session 9000]\<rparr>)
   \<and> [ex_session 9000] = [ex_session 5000][0 := (ex_session 5000)\<lparr>sess_expires := 9000\<rparr>]
   \<and> map_of (sessions \<lparr>client_server = ''srv'', domainsCache = None, sessions = [(''a@b.c'', 0)]\<rparr>)
         ''a@b.c'' = Some 0
   \<and> registered \<lparr>client_server = ''srv'', domainsCache = None, sessions = [(''a@b.c'', 0)]\<rparr>
        (ex_world\<lparr>trace := [(1000, PostSession (Some ''a'') (Some ''b.c'') ''srv'')],
                  session_heap := [ex_session 9000]\<rparr>) ''a@b.c''
       = Some (ex_session 9000)
   \<and> map_of (sessions (new_TacomailClient ''srv'')) ''a@b.c'' \<noteq> Some 0
   \<and> registered (new_TacomailClient ''srv'')
        (ex_world\<lparr>trace := [(1000, PostSession (Some ''a'') (Some ''b.c'') ''srv'')],
                  session_heap := [ex_session 9000]\<rparr>) ''a@b.c''
       = registered (new_TacomailClient ''srv'') (ex_world\<lparr>session_heap := [ex_session 5000]\<rparr>) ''a@b.c''"
proof -
  let ?w = "ex_world\<lparr>session_heap := [ex_session 5000]\<rparr>"
  let ?w' = "ex_world\<lparr>trace := [(1000, PostSession (Some ''a'') (Some ''b.c'') ''srv'')],
                        session_heap := [ex_session 9000]\<rparr>"
  let ?c1 = "\<lparr>client_server = ''srv'', domainsCache = None, sessions = [(''a@b.c'', 0)]\<rparr>"
  have made: "createInbox (ex_env [] 5000 0) (new_TacomailClient ''srv'') ''a@b.c'' None ex_world
     = (Inr (ex_inbox (Some 0)), ?c1,
        ex_world\<lparr>trace := [(1000, PostSession (Some ''a'') (Some ''b.c'') ''srv'')],
                 session_heap := [ex_session 5000]\<rparr>)"
    by code_simp
  have run: "refreshSession (ex_env [] 9000 0) (ex_inbox (Some 0)) ?w = (Inr (), ?w')"
    by code_simp
  have held: "inbox_session (ex_inbox (Some 0)) = Some 0"
    by (simp add: ex_inbox_def new_Inbox_def)
  have live: "0 < length (session_heap ?w)"
    by simp
  have fresh: "map_of (sessions (new_TacomailClient ''srv'')) ''a@b.c'' \<noteq> Some 0"
    by (simp add: new_TacomailClient_def)
  have new: "(session_heap ?w ! 0)\<lparr>sess_expires := sess_expires (session_heap ?w' ! 0)\<rparr> = ex_session 9000"
    by (simp add: ex_session_def)
  note r = refreshSession_in_place [OF held live run,
      of ?c1 "''a@b.c''" "ex_env [] 5000 0" "new_TacomailClient ''srv''" "''a@b.c''" None ex_world ?c1
         "ex_world\<lparr>trace := [(1000, PostSession (Some ''a'') (Some ''b.c'') ''srv'')],
                 session_heap := [ex_session 5000]\<rparr>"]
  note r2 = refreshSession_in_place [OF held live run,
      of "new_TacomailClient ''srv''" "''a@b.c''" "ex_env [] 5000 0" "new_TacomailClient ''srv''"
         "''a@b.c''" None ex_world ?c1
         "ex_world\<lparr>trace := [(1000, PostSession (Some ''a'') (Some ''b.c'') ''srv'')],
                 session_heap := [ex_session 5000]\<rparr>"]
  from r made have reg: "map_of (sessions ?c1) ''a@b.c'' = Some 0"
    by blast
  from r reg have seen: "registered ?c1 ?w' ''a@b.c'' = Some (ex_session 9000)"
    unfolding new by blast
  from r2 fresh have unseen: "registered (new_TacomailClient ''srv'') ?w' ''a@b.c''
       = registered (new_TacomailClient ''srv'') ?w ''a@b.c''"
    by blast
  from r have "session_heap ?w' =
      (session_heap ?w)[0 := (session_heap ?w ! 0)\<lparr>sess_expires := sess_expires (session_heap ?w' ! 0)\<rparr>]"
    by blast
  then have upd: "[ex_session 9000] = [ex_session 5000][0 := (ex_session 5000)\<lparr>sess_expires := 9000\<rparr>]"
    by (simp add: ex_session_def)
  from made held run upd reg seen fresh unseen show ?thesis
    by (intro conjI)
qed

section \<open>The domain cache\<close>

lemma getAvailableDomains_world:
  "snd (getAvailableDomains e s w) = emit (GetDomains s) (snd (axios_get_domains e w s)) w"
  by (simp add: getAvailableDomains_def snd_route)

text \<open>
  Awaited with nothing in between, the two turns of \<open>getDomains\<close> are the method as it is
  written, with the route \<open>getAvailableDomains\<close> in the place of the \<^verbatim>\<open>await\<close>.
\<close>

lemma getDomains_awaited:
  "getDomains e c w =
     (case domainsCache c of
        None \<Rightarrow>
          (case getAvailableDomains e (client_server c) w of
             (Inl err, w1) \<Rightarrow> (Inl err, c, w1)
           | (Inr data, w1) \<Rightarrow>
               (let (cache, w2) = alloc_array data w1;
                    (copy, w3) = spread cache w2
                in (Inr copy, c\<lparr>domainsCache := Some cache\<rparr>, w3)))
      | Some cache \<Rightarrow> (let (copy, w1) = spread cache w in (Inr copy, c, w1)))"
proof (cases "domainsCache c")
  case None
  show ?thesis
  proof (cases "fst (axios_get_domains e w (client_server c))")
    case (Inl err)
    with None show ?thesis
      by (simp add: getDomains_def getDomains_begin_def getDomains_finish_def
            getAvailableDomains_def route_def emit_def)
  next
    case (Inr data)
    with None show ?thesis
      by (simp add: getDomains_def getDomains_begin_def getDomains_finish_def
            getAvailableDomains_def route_def emit_def spread_def alloc_array_def)
  qed
next
  case (Some cache)
  then show ?thesis
    by (simp add: getDomains_def getDomains_begin_def getDomains_finish_def spread_def
          alloc_array_def)
qed

lemma getDomains_cached:
  "domainsCache c = Some cache \<Longrightarrow>
     getDomains e c w =
       (Inr (length (array_heap w)), c, w\<lparr>array_heap := array_heap w @ [array_heap w ! cache]\<rparr>)"
  by (simp add: getDomains_awaited spread_def alloc_array_def)

lemma getDomains_first:
  assumes fresh: "domainsCache c = None"
    and first: "getDomains e c w = (Inr r, c1, w1)"
  obtains data where
    "fst (axios_get_domains e w (client_server c)) = Inr data"
    "c1 = c\<lparr>domainsCache := Some (length (array_heap w))\<rparr>"
    "r = Suc (length (array_heap w))"
    "array_heap w1 = array_heap w @ [data, data]"
    "trace w1 = trace w @ [(now w, GetDomains (client_server c))]"
proof -
  obtain res w0 where fetch: "getAvailableDomains e (client_server c) w = (res, w0)"
    by (cases "getAvailableDomains e (client_server c) w")
  have w0: "w0 = emit (GetDomains (client_server c)) (snd (axios_get_domains e w (client_server c))) w"
    using getAvailableDomains_world [of e "client_server c" w] fetch by simp
  have unfolded: "getDomains e c w =
      (case res of
         Inl err \<Rightarrow> (Inl err, c, w0)
       | Inr data \<Rightarrow>
           (Inr (Suc (length (array_heap w0))), c\<lparr>domainsCache := Some (length (array_heap w0))\<rparr>,
            w0\<lparr>array_heap := array_heap w0 @ [data, data]\<rparr>))"
    using fresh fetch by (cases res) (simp_all add: getDomains_awaited spread_def alloc_array_def)
  from first unfolded obtain data where res: "res = Inr data"
    by (cases res) simp_all
  have reply: "fst (axios_get_domains e w (client_server c)) = Inr data"
    using fetch res fst_route_Inr [of "GetDomains (client_server c)" "''GET /domains''"
        "axios_get_domains e w (client_server c)" w data]
    by (simp add: getAvailableDomains_def)
  from first unfolded res have
    "c1 = c\<lparr>domainsCache := Some (length (array_heap w0))\<rparr>"
    "r = Suc (length (array_heap w0))"
    "w1 = w0\<lparr>array_heap := array_heap w0 @ [data, data]\<rparr>"
    by simp_all
  then show thesis
    using reply by (intro that [of data]) (simp_all add: w0 array_heap_emit trace_emit)
qed

lemma caller_cached:
  assumes "domainsCache c = Some cache" "cache < length (array_heap w)"
    "array_heap w ! cache = data" "cache \<notin> set got"
    and "caller e steps got c w = (rs, c2, w2)"
  shows "trace w2 = trace w \<and> now w2 = now w \<and> c2 = c \<and> array_heap w2 ! cache = data
         \<and> rs = replicate (length (filter ((=) CallGetDomains) steps)) (Inr data)"
  using assms
proof (induction steps arbitrary: got w rs c2 w2)
  case Nil
  then show ?case by simp
next
  case (Cons step steps)
  show ?case
  proof (cases step)
    case CallGetDomains
    let ?w1 = "w\<lparr>array_heap := array_heap w @ [array_heap w ! cache]\<rparr>"
    let ?r = "length (array_heap w)"
    obtain rs' c' w' where rest: "caller e steps (got @ [?r]) c ?w1 = (rs', c', w')"
      by (cases "caller e steps (got @ [?r]) c ?w1")
    have copy: "array_heap ?w1 ! ?r = data"
      using Cons.prems(3) by simp
    have run: "caller e (step # steps) got c w = (Inr data # rs', c', w')"
      unfolding CallGetDomains using rest copy
      by (simp add: getDomains_cached [OF Cons.prems(1)])
    have "trace w' = trace ?w1 \<and> now w' = now ?w1 \<and> c' = c \<and> array_heap w' ! cache = data
         \<and> rs' = replicate (length (filter ((=) CallGetDomains) steps)) (Inr data)"
    proof (rule Cons.IH [OF Cons.prems(1) _ _ _ rest])
      show "cache < length (array_heap ?w1)" using Cons.prems(2) by simp
      show "array_heap ?w1 ! cache = data" using Cons.prems(2,3) by (simp add: nth_append)
      show "cache \<notin> set (got @ [?r])" using Cons.prems(2,4) by simp
    qed
    with run Cons.prems(5) show ?thesis
      unfolding CallGetDomains by simp
  next
    case (Overwrite k xs)
    let ?w1 = "if k < length got then w\<lparr>array_heap := (array_heap w)[got ! k := xs]\<rparr> else w"
    have run: "caller e steps got c ?w1 = (rs, c2, w2)"
      using Cons.prems(5) unfolding Overwrite by simp
    have other: "k < length got \<Longrightarrow> got ! k \<noteq> cache"
      using Cons.prems(4) by (metis nth_mem)
    have "trace w2 = trace ?w1 \<and> now w2 = now ?w1 \<and> c2 = c \<and> array_heap w2 ! cache = data
         \<and> rs = replicate (length (filter ((=) CallGetDomains) steps)) (Inr data)"
    proof (rule Cons.IH [OF Cons.prems(1) _ _ Cons.prems(4) run])
      show "cache < length (array_heap ?w1)" using Cons.prems(2) by simp
      show "array_heap ?w1 ! cache = data" using Cons.prems(3) other by simp
    qed
    then show ?thesis
      unfolding Overwrite by simp
  qed
qed

text \<open>
  C7, as it fails. Two calls of \<open>getDomains\<close> on a fresh client, the second started while the
  first is still waiting for its fetch: the cache is still \<^verbatim>\<open>null\<close> when the second call
  tests it, so it fetches too. Both calls succeed, and the trace holds two domain requests.
\<close>

theorem getDomains_fetches_once_counterexample:
  "overlapping_getDomains (ex_env [] 5000 3) (new_TacomailClient ''srv'') ex_world =
     ((Inr 1, Inr 3),
      \<lparr>client_server = ''srv'', domainsCache = Some 2, sessions = []\<rparr>,
      \<lparr>now = 1003,
       trace = [(1000, GetDomains ''srv''), (1000, GetDomains ''srv'')],
       session_heap = [],
       array_heap = [[''tacomail.de'', ''example.org''], [''tacomail.de'', ''example.org''],
                     [''tacomail.de'', ''example.org''], [''tacomail.de'', ''example.org'']]\<rparr>)"
  by code_simp

text \<open>
  C7, amended. On a client whose cache is still empty a call of \<open>getDomains\<close> succeeds, with
  no other call of \<open>getDomains\<close> started while it was waiting. Whatever the caller does after
  it has returned, calling again or overwriting any of the arrays it was handed, in any order
  and number: the trace holds the one domain request of the first call and no other; every
  call, the first included, returns the list the service sent; and the cache is an array of
  its own, different from the one returned, that still holds that list at the end.
\<close>

theorem getDomains_fetches_once:
  assumes fresh: "domainsCache c = None"
    and first: "getDomains e c w = (Inr r, c1, w1)"
    and later: "caller e steps [r] c1 w1 = (rs, c2, w2)"
  shows "\<exists>data cache.
           fst (axios_get_domains e w (client_server c)) = Inr data
           \<and> array_heap w1 ! r = data
           \<and> trace w2 = trace w @ [(now w, GetDomains (client_server c))]
           \<and> rs = replicate (length (filter ((=) CallGetDomains) steps)) (Inr data)
           \<and> domainsCache c2 = Some cache \<and> cache \<noteq> r \<and> array_heap w2 ! cache = data"
  using fresh first
proof (rule getDomains_first)
  fix data
  let ?cache = "length (array_heap w)"
  assume reply: "fst (axios_get_domains e w (client_server c)) = Inr data"
    and c1: "c1 = c\<lparr>domainsCache := Some ?cache\<rparr>"
    and r: "r = Suc ?cache"
    and heap: "array_heap w1 = array_heap w @ [data, data]"
    and tr: "trace w1 = trace w @ [(now w, GetDomains (client_server c))]"
  have cached: "domainsCache c1 = Some ?cache" using c1 by simp
  have "trace w2 = trace w1 \<and> now w2 = now w1 \<and> c2 = c1 \<and> array_heap w2 ! ?cache = data
         \<and> rs = replicate (length (filter ((=) CallGetDomains) steps)) (Inr data)"
  proof (rule caller_cached [OF cached _ _ _ later])
    show "?cache < length (array_heap w1)" using heap by simp
    show "array_heap w1 ! ?cache = data" using heap by (simp add: nth_append)
    show "?cache \<notin> set [r]" using r by simp
  qed
  moreover have "array_heap w1 ! r = data"
    using heap r by (simp add: nth_append)
  ultimately show ?thesis
    using reply tr cached r by (intro exI [of _ data] exI [of _ ?cache]) simp
qed

theorem getDomains_fetches_once_witness:
  "domainsCache (new_TacomailClient ''srv'') = None
   \<and> getDomains (ex_env [] 5000 3) (new_TacomailClient ''srv'') ex_world
       = (Inr 1, \<lparr>client_server = ''srv'', domainsCache = Some 0, sessions = []\<rparr>,
          ex_world\<lparr>now := 1003, trace := [(1000, GetDomains ''srv'')],
            array_heap := [[''tacomail.de'', ''example.org''], [''tacomail.de'', ''example.org'']]\<rparr>)
   \<and> caller (ex_env [] 5000 3)
         [CallGetDomains, Overwrite 0 [''evil''], Overwrite 1 [], CallGetDomains] [1]
         \<lparr>client_server = ''srv'', domainsCache = Some 0, sessions = []\<rparr>
         (ex_world\<lparr>now := 1003, trace := [(1000, GetDomains ''srv'')],
            array_heap := [[''tacomail.de'', ''example.org''], [''tacomail.de'', ''example.org'']]\<rparr>)
       = ([Inr [''tacomail.de'', ''example.org''], Inr [''tacomail.de'', ''example.org'']],
          \<lparr>client_server = ''srv'', domainsCache = Some 0, sessions = []\<rparr>,
          ex_world\<lparr>now := 1003, trace := [(1000, GetDomains ''srv'')],
            array_heap := [[''tacomail.de'', ''example.org''], [''evil''], [],
                           [''tacomail.de'', ''example.org'']]\<rparr>)
   \<and> fst (axios_get_domains (ex_env [] 5000 3) ex_world ''srv'')
       = Inr [''tacomail.de'', ''example.org'']"
proof -
  let ?e = "ex_env [] 5000 3"
  let ?c1 = "\<lparr>client_server = ''srv'', domainsCache = Some 0, sessions = []\<rparr>"
  let ?ds = "[''tacomail.de'', ''example.org'']"
  let ?w1 = "ex_world\<lparr>now := 1003, trace := [(1000, GetDomains ''srv'')], array_heap := [?ds, ?ds]\<rparr>"
  let ?w2 = "ex_world\<lparr>now := 1003, trace := [(1000, GetDomains ''srv'')],
               array_heap := [?ds, [''evil''], [], ?ds]\<rparr>"
  let ?steps = "[CallGetDomains, Overwrite 0 [''evil''], Overwrite 1 [], CallGetDomains]"
  have fresh: "domainsCache (new_TacomailClient ''srv'') = None"
    by (simp add: new_TacomailClient_def)
  have first: "getDomains ?e (new_TacomailClient ''srv'') ex_world = (Inr 1, ?c1, ?w1)"
    by code_simp
  have later: "caller ?e ?steps [1] ?c1 ?w1 = ([Inr ?ds, Inr ?ds], ?c1, ?w2)"
    by code_simp
  from getDomains_fetches_once [OF fresh first later]
  obtain data where reply: "fst (axios_get_domains ?e ex_world (client_server (new_TacomailClient ''srv''))) = Inr data"
    and rs: "[Inr ?ds, Inr ?ds] = replicate (length (filter ((=) CallGetDomains) ?steps)) (Inr data :: error + string list)"
    by blast
  from rs have "data = ?ds"
    by simp
  with reply have "fst (axios_get_domains ?e ex_world ''srv'') = Inr ?ds"
    by (simp add: new_TacomailClient_def)
  with fresh first later show ?thesis
    by (intro conjI)
qed

section \<open>Deleting all sessions\<close>

lemma deleteSessionForInbox_registered:
  assumes "map_of (sessions c) a = Some s"
  shows "deleteSessionForInbox e c a w =
           (case fst (axios_delete_session e w (element (split_at CHR ''@'' a) 0)
                        (element (split_at CHR ''@'' a) 1) (client_server c)) of
              Inl t \<Rightarrow> Inl (handleApiError t ''DELETE /session'')
            | Inr u \<Rightarrow> Inr (),
            case fst (axios_delete_session e w (element (split_at CHR ''@'' a) 0)
                        (element (split_at CHR ''@'' a) 1) (client_server c)) of
              Inl t \<Rightarrow> c
            | Inr u \<Rightarrow> c\<lparr>sessions := AList.delete a (sessions c)\<rparr>,
            emit (delete_request c a)
              (snd (axios_delete_session e w (element (split_at CHR ''@'' a) 0)
                        (element (split_at CHR ''@'' a) 1) (client_server c))) w)"
  using assms
  by (cases "fst (axios_delete_session e w (element (split_at CHR ''@'' a) 0)
                        (element (split_at CHR ''@'' a) 1) (client_server c))")
     (simp_all add: deleteSessionForInbox_def deleteSession_def route_def delete_request_def Let_def)

lemma emit_reset: "(emit ev ms w)\<lparr>now := now w\<rparr> = w\<lparr>trace := trace w @ [(now w, ev)]\<rparr>"
  by (simp add: emit_def)

lemma dispatch_spec:
  assumes "\<forall>a\<in>set keys. map_of (sessions c) a \<noteq> None"
    and "dispatch e c keys w = (started, w1)"
  shows "w1 = w\<lparr>trace := trace w @ map (\<lambda>a. (now w, delete_request c a)) keys\<rparr>
         \<and> length started = length keys
         \<and> (\<forall>i<length keys.
               isl (fst (snd (started ! i))) =
               isl (fst (axios_delete_session e
                     (w\<lparr>trace := trace w @ take i (map (\<lambda>a. (now w, delete_request c a)) keys)\<rparr>)
                     (element (split_at CHR ''@'' (keys ! i)) 0)
                     (element (split_at CHR ''@'' (keys ! i)) 1) (client_server c))))"
  using assms
proof (induction keys arbitrary: w started w1)
  case Nil
  then show ?case by simp
next
  case (Cons a keys)
  let ?reply = "axios_delete_session e w (element (split_at CHR ''@'' a) 0)
                  (element (split_at CHR ''@'' a) 1) (client_server c)"
  let ?w' = "w\<lparr>trace := trace w @ [(now w, delete_request c a)]\<rparr>"
  from Cons.prems(1) obtain s where reg: "map_of (sessions c) a = Some s"
    by auto
  obtain r c' wa where one: "deleteSessionForInbox e c a w = (r, c', wa)"
    by (cases "deleteSessionForInbox e c a w")
  from one have r: "isl r = isl (fst ?reply)"
    and wa: "wa = emit (delete_request c a) (snd ?reply) w"
    unfolding deleteSessionForInbox_registered [OF reg]
    by (auto split: sum.splits)
  have reset: "wa\<lparr>now := now w\<rparr> = ?w'"
    unfolding wa by (rule emit_reset)
  obtain rest w2 where rest: "dispatch e c keys ?w' = (rest, w2)"
    by (cases "dispatch e c keys ?w'")
  from Cons.prems(2) one rest reset have started: "started = (a, r, nat (now wa - now w)) # rest"
    and w1: "w1 = w2"
    by simp_all
  from Cons.prems(1) have "\<forall>a\<in>set keys. map_of (sessions c) a \<noteq> None"
    by simp
  from Cons.IH [OF this rest] have
    w2: "w2 = ?w'\<lparr>trace := trace ?w' @ map (\<lambda>a. (now ?w', delete_request c a)) keys\<rparr>"
    and len: "length rest = length keys"
    and outs: "\<forall>i<length keys.
               isl (fst (snd (rest ! i))) =
               isl (fst (axios_delete_session e
                     (?w'\<lparr>trace := trace ?w' @ take i (map (\<lambda>a. (now ?w', delete_request c a)) keys)\<rparr>)
                     (element (split_at CHR ''@'' (keys ! i)) 0)
                     (element (split_at CHR ''@'' (keys ! i)) 1) (client_server c)))"
    by blast+
  have "w1 = w\<lparr>trace := trace w @ map (\<lambda>a. (now w, delete_request c a)) (a # keys)\<rparr>"
    unfolding w1 w2 by simp
  moreover have "length started = length (a # keys)"
    unfolding started using len by simp
  moreover have "\<forall>i<length (a # keys).
               isl (fst (snd (started ! i))) =
               isl (fst (axios_delete_session e
                     (w\<lparr>trace := trace w @ take i (map (\<lambda>a. (now w, delete_request c a)) (a # keys))\<rparr>)
                     (element (split_at CHR ''@'' ((a # keys) ! i)) 0)
                     (element (split_at CHR ''@'' ((a # keys) ! i)) 1) (client_server c)))"
  proof (intro allI impI)
    fix i
    assume i: "i < length (a # keys)"
    show "isl (fst (snd (started ! i))) =
               isl (fst (axios_delete_session e
                     (w\<lparr>trace := trace w @ take i (map (\<lambda>a. (now w, delete_request c a)) (a # keys))\<rparr>)
                     (element (split_at CHR ''@'' ((a # keys) ! i)) 0)
                     (element (split_at CHR ''@'' ((a # keys) ! i)) 1) (client_server c)))"
    proof (cases i)
      case 0
      then show ?thesis unfolding started using r by simp
    next
      case (Suc j)
      with i have "j < length keys" by simp
      with outs have "isl (fst (snd (rest ! j))) =
               isl (fst (axios_delete_session e
                     (?w'\<lparr>trace := trace ?w' @ take j (map (\<lambda>a. (now ?w', delete_request c a)) keys)\<rparr>)
                     (element (split_at CHR ''@'' (keys ! j)) 0)
                     (element (split_at CHR ''@'' (keys ! j)) 1) (client_server c)))"
        by blast
      then show ?thesis unfolding started Suc by simp
    qed
  qed
  ultimately show ?case
    by (intro conjI)
qed

lemma first_rejection_exists:
  "\<exists>x\<in>set xs. isl (fst (snd x)) \<Longrightarrow> \<exists>err ms. first_rejection xs = Some (err, ms)"
  by (induction xs rule: first_rejection.induct) auto

text \<open>
  C8. \<open>deleteAllSessions\<close> sends one session-deletion request for every registered address,
  in registry order and all at the instant of the call, whatever the service answers to any
  of them: the trace grows by exactly these requests. And when the service fails any one of
  them, the whole operation fails.
\<close>

theorem deleteAllSessions_attempts_all:
  assumes run: "deleteAllSessions e c w = (r, c1, w1, in_flight)"
  shows "trace w1 = trace w @ delete_requests c w
         \<and> (\<forall>i<length (sessions c). isl (delete_reply e c w i) \<longrightarrow> isl r)"
proof -
  let ?keys = "map fst (sessions c)"
  let ?reqs = "map (\<lambda>a. (now w, delete_request c a)) ?keys"
  have reqs: "delete_requests c w = ?reqs"
    by (simp add: delete_requests_def case_prod_unfold comp_def)
  have registered: "\<forall>a\<in>set ?keys. map_of (sessions c) a \<noteq> None"
    by (simp add: map_of_eq_None_iff)
  obtain started w0 where disp: "dispatch e c ?keys w = (started, w0)"
    by (cases "dispatch e c ?keys w")
  from dispatch_spec [OF registered disp] have
    w0: "w0 = w\<lparr>trace := trace w @ ?reqs\<rparr>"
    and len: "length started = length ?keys"
    and outs: "\<forall>i<length ?keys.
               isl (fst (snd (started ! i))) =
               isl (fst (axios_delete_session e (w\<lparr>trace := trace w @ take i ?reqs\<rparr>)
                     (element (split_at CHR ''@'' (?keys ! i)) 0)
                     (element (split_at CHR ''@'' (?keys ! i)) 1) (client_server c)))"
    by blast+
  let ?order = "sort_key (\<lambda>(address, r, ms). ms) started"
  have unfolded: "deleteAllSessions e c w =
      (case first_rejection ?order of
         None \<Rightarrow> (Inr (), c\<lparr>sessions := []\<rparr>,
             w0\<lparr>now := now w + int (fold max (map (\<lambda>(address, r, ms). ms) started) 0)\<rparr>, [])
       | Some (err, limit) \<Rightarrow>
           (Inl err, c\<lparr>sessions := fulfil limit started (sessions c)\<rparr>,
            w0\<lparr>now := now w + int limit\<rparr>, filter (\<lambda>(address, r, ms). limit < ms) started))"
    by (simp add: deleteAllSessions_def disp)
  have tr: "trace w1 = trace w @ delete_requests c w"
    using run unfolding unfolded reqs w0 by (cases "first_rejection ?order") auto
  have "\<forall>i<length (sessions c). isl (delete_reply e c w i) \<longrightarrow> isl r"
  proof (intro allI impI)
    fix i
    assume i: "i < length (sessions c)" and fails: "isl (delete_reply e c w i)"
    from i outs have "isl (fst (snd (started ! i))) =
               isl (fst (axios_delete_session e (w\<lparr>trace := trace w @ take i ?reqs\<rparr>)
                     (element (split_at CHR ''@'' (?keys ! i)) 0)
                     (element (split_at CHR ''@'' (?keys ! i)) 1) (client_server c)))"
      by simp
    with fails i have "isl (fst (snd (started ! i)))"
      by (simp add: delete_reply_def reqs)
    moreover have "started ! i \<in> set ?order"
      using i len by simp
    ultimately have "\<exists>x\<in>set ?order. isl (fst (snd x))"
      by blast
    from first_rejection_exists [OF this] obtain err ms where "first_rejection ?order = Some (err, ms)"
      by auto
    with run unfolded have "r = Inl err"
      by simp
    then show "isl r"
      by simp
  qed
  with tr show ?thesis
    by (intro conjI)
qed

theorem deleteAllSessions_attempts_all_witness:
  "deleteAllSessions (ex_env [] 5000 3) ex_client ex_client_world
     = (Inl (TacomailError ''boom'' (Some 500) (Some ''DELETE /session'')),
        ex_client\<lparr>sessions := [(''b@x.y'', 1)]\<rparr>,
        ex_client_world\<lparr>now := 1003,
          trace := [(1000, DeleteSession (Some ''a'') (Some ''x.y'') ''srv''),
                    (1000, DeleteSession (Some ''b'') (Some ''x.y'') ''srv''),
                    (1000, DeleteSession (Some ''c'') (Some ''x.y'') ''srv'')]\<rparr>,
        [])
   \<and> 1 < length (sessions ex_client)
   \<and> isl (delete_reply (ex_env [] 5000 3) ex_client ex_client_world 1)
   \<and> trace ex_client_world @ delete_requests ex_client ex_client_world
       = [(1000, DeleteSession (Some ''a'') (Some ''x.y'') ''srv''),
          (1000, DeleteSession (Some ''b'') (Some ''x.y'') ''srv''),
          (1000, DeleteSession (Some ''c'') (Some ''x.y'') ''srv'')]
   \<and> isl (Inl (TacomailError ''boom'' (Some 500) (Some ''DELETE /session'')) :: error + unit)"
proof -
  let ?w1 = "ex_client_world\<lparr>now := 1003,
          trace := [(1000, DeleteSession (Some ''a'') (Some ''x.y'') ''srv''),
                    (1000, DeleteSession (Some ''b'') (Some ''x.y'') ''srv''),
                    (1000, DeleteSession (Some ''c'') (Some ''x.y'') ''srv'')]\<rparr>"
  have run: "deleteAllSessions (ex_env [] 5000 3) ex_client ex_client_world
     = (Inl (TacomailError ''boom'' (Some 500) (Some ''DELETE /session'')),
        ex_client\<lparr>sessions := [(''b@x.y'', 1)]\<rparr>, ?w1, [])"
    by code_simp
  have second: "1 < length (sessions ex_client)"
    by (simp add: ex_client_def)
  have fails: "isl (delete_reply (ex_env [] 5000 3) ex_client ex_client_world 1)"
    by code_simp
  note r = deleteAllSessions_attempts_all [OF run]
  from r have "trace ?w1 = trace ex_client_world @ delete_requests ex_client ex_client_world"
    by blast
  then have tr: "trace ex_client_world @ delete_requests ex_client ex_client_world
       = [(1000, DeleteSession (Some ''a'') (Some ''x.y'') ''srv''),
          (1000, DeleteSession (Some ''b'') (Some ''x.y'') ''srv''),
          (1000, DeleteSession (Some ''c'') (Some ''x.y'') ''srv'')]"
    by simp
  from r second fails
  have "isl (Inl (TacomailError ''boom'' (Some 500) (Some ''DELETE /session'')) :: error + unit)"
    by blast
  with run second fails tr show ?thesis
    by (intro conjI)
qed

section \<open>What the operations do to a Session\<close>




















end
